theory Spec2Isabelle
  imports Complex_Main
begin

section \<open>JavaScript numbers\<close>

text \<open>
  A JavaScript number is an IEEE-754 binary64 value. It is modelled by the rational it
  denotes, next to the three special values. The two zeros are identified: nothing the
  program prints or compares tells them apart (\<^verbatim>\<open>-0 < 0\<close> is false and
  \<^verbatim>\<open>(-0).toString()\<close> is \<^verbatim>\<open>"0"\<close>).
  Every arithmetic operation computes the exact rational result and rounds it to the
  nearest binary64 value, ties to even, as the hardware does.
\<close>

datatype jsnum = NaN | PosInf | NegInf | Fin rat

text \<open>The number of binary digits of a positive integer (0 for the others).\<close>

function bitlen :: "int \<Rightarrow> int" where
  "bitlen n = (if n \<le> 0 then 0 else 1 + bitlen (n div 2))"
  by pat_completeness auto
termination
  by (relation "measure nat") auto

declare bitlen.simps [simp del]

definition pow2 :: "int \<Rightarrow> rat" where
  "pow2 e = (if 0 \<le> e then 2 ^ nat e else 1 / 2 ^ nat (- e))"

text \<open>The binary exponent of a positive rational: \<open>pow2 k \<le> q < pow2 (k + 1)\<close>.\<close>

definition ilog2 :: "rat \<Rightarrow> int" where
  "ilog2 q = (if 1 \<le> q then bitlen \<lfloor>q\<rfloor> - 1 else - bitlen (\<lceil>1 / q\<rceil> - 1))"

definition round_half_even :: "rat \<Rightarrow> int" where
  "round_half_even q =
     (let f = \<lfloor>q\<rfloor>; r = q - of_int f
      in if r < 1 / 2 then f
         else if 1 / 2 < r then f + 1
         else if even f then f else f + 1)"

text \<open>
  Rounding to binary64: a significand \<open>m\<close> of 53 bits, the exponent \<open>e\<close> of its last bit
  never below \<open>-1074\<close> (subnormal numbers), and overflow to an infinity when the
  rounded value \<open>m * 2 ^ e\<close> reaches \<open>2 ^ 1024\<close>.
\<close>

definition round64 :: "rat \<Rightarrow> jsnum" where
  "round64 q =
     (if q = 0 then Fin 0
      else let k = ilog2 \<bar>q\<bar>;
               e = max (k - 52) (- 1074);
               m = round_half_even (\<bar>q\<bar> / pow2 e)
           in if 1024 \<le> k \<or> (k = 1023 \<and> m = 2 ^ 53)
              then (if q < 0 then NegInf else PosInf)
              else Fin ((if q < 0 then - 1 else 1) * of_int m * pow2 e))"

text \<open>\<^verbatim>\<open>x + y\<close> and \<^verbatim>\<open>x - y\<close>.\<close>

fun js_neg :: "jsnum \<Rightarrow> jsnum" where
  "js_neg NaN = NaN"
| "js_neg PosInf = NegInf"
| "js_neg NegInf = PosInf"
| "js_neg (Fin a) = Fin (- a)"

fun js_add :: "jsnum \<Rightarrow> jsnum \<Rightarrow> jsnum" where
  "js_add (Fin a) (Fin b) = round64 (a + b)"
| "js_add NaN y = NaN"
| "js_add x NaN = NaN"
| "js_add PosInf NegInf = NaN"
| "js_add NegInf PosInf = NaN"
| "js_add PosInf y = PosInf"
| "js_add NegInf y = NegInf"
| "js_add x PosInf = PosInf"
| "js_add x NegInf = NegInf"

definition js_sub :: "jsnum \<Rightarrow> jsnum \<Rightarrow> jsnum" where
  "js_sub x y = js_add x (js_neg y)"

text \<open>
  The program divides, multiplies and takes remainders only by positive literals
  (\<^verbatim>\<open>1000\<close>, \<^verbatim>\<open>3600\<close>, \<^verbatim>\<open>60\<close>, \<^verbatim>\<open>1\<close>), so the second operand of these three
  operations is a positive rational \<open>c\<close>. The remainder \<^verbatim>\<open>x % c\<close> truncates the quotient
  towards zero, keeps the sign of \<open>x\<close> and is exact.
\<close>

fun js_div :: "jsnum \<Rightarrow> rat \<Rightarrow> jsnum" where
  "js_div (Fin a) c = round64 (a / c)"
| "js_div x c = x"

fun js_mul :: "jsnum \<Rightarrow> rat \<Rightarrow> jsnum" where
  "js_mul (Fin a) c = round64 (a * c)"
| "js_mul x c = x"

definition trunc :: "rat \<Rightarrow> int" where
  "trunc q = (if 0 \<le> q then \<lfloor>q\<rfloor> else \<lceil>q\<rceil>)"

fun js_mod :: "jsnum \<Rightarrow> rat \<Rightarrow> jsnum" where
  "js_mod (Fin a) c = Fin (a - c * of_int (trunc (a / c)))"
| "js_mod x c = NaN"

text \<open>\<^verbatim>\<open>Math.floor\<close>.\<close>

fun js_floor :: "jsnum \<Rightarrow> jsnum" where
  "js_floor (Fin a) = Fin (of_int \<lfloor>a\<rfloor>)"
| "js_floor x = x"

text \<open>\<^verbatim>\<open>x < y\<close>: false as soon as an operand is \<^verbatim>\<open>NaN\<close>.\<close>

fun js_lt :: "jsnum \<Rightarrow> jsnum \<Rightarrow> bool" where
  "js_lt (Fin a) (Fin b) = (a < b)"
| "js_lt NaN y = False"
| "js_lt x NaN = False"
| "js_lt x NegInf = False"
| "js_lt PosInf y = False"
| "js_lt NegInf y = True"
| "js_lt x PosInf = True"

text \<open>\<^verbatim>\<open>x >= 0\<close>, the reading of "non-negative": false for \<^verbatim>\<open>NaN\<close>.\<close>

fun js_ge0 :: "jsnum \<Rightarrow> bool" where
  "js_ge0 (Fin a) = (0 \<le> a)"
| "js_ge0 PosInf = True"
| "js_ge0 x = False"

text \<open>\<^verbatim>\<open>Math.max(0, x)\<close>.\<close>

fun js_max0 :: "jsnum \<Rightarrow> jsnum" where
  "js_max0 (Fin a) = Fin (max 0 a)"
| "js_max0 NaN = NaN"
| "js_max0 PosInf = PosInf"
| "js_max0 NegInf = Fin 0"

text \<open>Truthiness of a number: \<^verbatim>\<open>NaN\<close> and zero are falsy.\<close>

fun num_truthy :: "jsnum \<Rightarrow> bool" where
  "num_truthy NaN = False"
| "num_truthy (Fin a) = (a \<noteq> 0)"
| "num_truthy x = True"

section \<open>JavaScript strings\<close>

text \<open>
  A string is the list of its UTF-16 code units, restricted to the code units below 256
  that a \<^typ>\<open>char\<close> holds. \<^verbatim>\<open>trim\<close> removes the white space and line terminators of
  that range at both ends; \<^verbatim>\<open>toLowerCase\<close> maps the capital letters of that range.
\<close>

definition is_ws :: "char \<Rightarrow> bool" where
  "is_ws c = (c \<in> set [CHR 0x09, CHR 0x0A, CHR 0x0B, CHR 0x0C, CHR 0x0D, CHR 0x20, CHR 0xA0])"

definition trim :: "string \<Rightarrow> string" where
  "trim s = rev (dropWhile is_ws (rev (dropWhile is_ws s)))"

definition lower_char :: "char \<Rightarrow> char" where
  "lower_char c =
     (let n = (of_char c :: nat)
      in if (65 \<le> n \<and> n \<le> 90) \<or> (192 \<le> n \<and> n \<le> 222 \<and> n \<noteq> 215)
         then char_of (n + 32) else c)"

definition toLowerCase :: "string \<Rightarrow> string" where
  "toLowerCase s = map lower_char s"

text \<open>\<^verbatim>\<open>parts.join(sep)\<close>.\<close>

fun join :: "string \<Rightarrow> string list \<Rightarrow> string" where
  "join sep [] = []"
| "join sep [x] = x"
| "join sep (x # y # ys) = x @ sep @ join sep (y # ys)"

text \<open>\<^verbatim>\<open>s.padStart(n, "0")\<close>.\<close>

definition padStart :: "nat \<Rightarrow> string \<Rightarrow> string" where
  "padStart n s = replicate (n - length s) (CHR ''0'') @ s"

text \<open>\<^verbatim>\<open>s.includes(t)\<close>: \<open>t\<close> occurs in \<open>s\<close> as a contiguous run.\<close>

fun str_includes :: "string \<Rightarrow> string \<Rightarrow> bool" where
  "str_includes [] t = (t = [])"
| "str_includes (c # s) t = (take (length t) (c # s) = t \<or> str_includes s t)"

text \<open>\<^verbatim>\<open>s.replace(/c/g, t)\<close> for a single character \<open>c\<close>.\<close>

definition replaceAll :: "char \<Rightarrow> string \<Rightarrow> string \<Rightarrow> string" where
  "replaceAll c t s = concat (map (\<lambda>d. if d = c then t else [d]) s)"

subsection \<open>Numbers as strings\<close>

definition digit :: "nat \<Rightarrow> char" where
  "digit d = ''0123456789'' ! d"

text \<open>The decimal numeral of a natural number.\<close>

fun digits10 :: "nat \<Rightarrow> string" where
  "digits10 n = (if n < 10 then [digit n] else digits10 (n div 10) @ [digit (n mod 10)])"

declare digits10.simps [simp del]

text \<open>
  \<^verbatim>\<open>Number.prototype.toString\<close>. An integer below \<open>2 ^ 53\<close> in absolute value prints as
  its decimal numeral. Any other finite value prints the shortest digit string \<open>s\<close> (of
  \<open>k\<close> digits, with a decimal exponent \<open>n\<close>) for which \<open>s * 10 ^ (n - k)\<close> rounds back to
  the value, the closest such string when there are several; the digits are laid out in
  positional notation while \<open>-6 < n \<le> 21\<close> and in exponent notation otherwise.
\<close>

function declen :: "int \<Rightarrow> int" where
  "declen n = (if n \<le> 0 then 0 else 1 + declen (n div 10))"
  by pat_completeness auto
termination
  by (relation "measure nat") auto

declare declen.simps [simp del]

definition pow10 :: "int \<Rightarrow> rat" where
  "pow10 e = (if 0 \<le> e then 10 ^ nat e else 1 / 10 ^ nat (- e))"

definition ilog10 :: "rat \<Rightarrow> int" where
  "ilog10 q = (if 1 \<le> q then declen \<lfloor>q\<rfloor> - 1 else - declen (\<lceil>1 / q\<rceil> - 1))"

definition digit_candidates :: "rat \<Rightarrow> int \<Rightarrow> int \<Rightarrow> (int \<times> int) list" where
  "digit_candidates x k n =
     (let lo = \<lfloor>x / pow10 (n - k)\<rfloor>
      in filter (\<lambda>(s, n). pow10 (k - 1) \<le> of_int s \<and> of_int s < pow10 k \<and>
                   round64 (of_int s * pow10 (n - k)) = Fin x)
           [(lo, n), (lo + 1, n)])"

definition decimal_error :: "rat \<Rightarrow> int \<Rightarrow> int \<times> int \<Rightarrow> rat" where
  "decimal_error x k c = \<bar>of_int (fst c) * pow10 (snd c - k) - x\<bar>"

fun closest :: "rat \<Rightarrow> int \<Rightarrow> int \<times> int \<Rightarrow> (int \<times> int) list \<Rightarrow> int \<times> int" where
  "closest x k c [] = c"
| "closest x k c (d # ds) =
     closest x k (if decimal_error x k d < decimal_error x k c then d else c) ds"

text \<open>The digits \<open>s\<close>, the exponent \<open>n\<close> and the length \<open>k\<close>; 17 digits identify every binary64 value.\<close>

fun shortest_digits :: "nat \<Rightarrow> rat \<Rightarrow> int \<Rightarrow> int \<times> int \<times> int" where
  "shortest_digits 0 x k = (\<lfloor>x / pow10 (ilog10 x + 1 - k)\<rfloor>, ilog10 x + 1, k)"
| "shortest_digits (Suc fuel) x k =
     (case digit_candidates x k (ilog10 x + 1) @ digit_candidates x k (ilog10 x + 2) of
        [] \<Rightarrow> shortest_digits fuel x (k + 1)
      | c # cs \<Rightarrow> (case closest x k c cs of (s, n) \<Rightarrow> (s, n, k)))"

definition layout :: "int \<times> int \<times> int \<Rightarrow> string" where
  "layout t =
     (case t of (s, n, k) \<Rightarrow>
        let ds = digits10 (nat s); e = n - 1
        in if k \<le> n \<and> n \<le> 21 then ds @ replicate (nat (n - k)) (CHR ''0'')
           else if 0 < n \<and> n \<le> 21 then take (nat n) ds @ ''.'' @ drop (nat n) ds
           else if - 6 < n \<and> n \<le> 0 then ''0.'' @ replicate (nat (- n)) (CHR ''0'') @ ds
           else (if k = 1 then ds else take 1 ds @ ''.'' @ drop 1 ds)
                @ ''e'' @ (if e < 0 then ''-'' else ''+'') @ digits10 (nat \<bar>e\<bar>))"

definition posToString :: "rat \<Rightarrow> string" where
  "posToString a =
     (if of_int \<lfloor>a\<rfloor> = a \<and> a < 2 ^ 53 then digits10 (nat \<lfloor>a\<rfloor>)
      else layout (shortest_digits 16 a 1))"

fun numToString :: "jsnum \<Rightarrow> string" where
  "numToString NaN = ''NaN''"
| "numToString PosInf = ''Infinity''"
| "numToString NegInf = ''-Infinity''"
| "numToString (Fin a) =
     (if a = 0 then ''0'' else if a < 0 then ''-'' @ posToString (- a) else posToString a)"

section \<open>Values of unknown type\<close>

text \<open>
  \<^verbatim>\<open>formatTranscript\<close> inspects its segments at run time (\<^verbatim>\<open>typeof\<close>, truthiness), so
  a field of a segment it receives is any JavaScript value. \<open>JObject\<close> stands for every
  object, array and function (a symbol and a big integer fail the checks as these do).
\<close>

datatype jsval = JUndefined | JNull | JBool bool | JNum jsnum | JStr string | JObject

fun truthy :: "jsval \<Rightarrow> bool" where
  "truthy JUndefined = False"
| "truthy JNull = False"
| "truthy (JBool b) = b"
| "truthy (JNum n) = num_truthy n"
| "truthy (JStr s) = (s \<noteq> [])"
| "truthy JObject = True"

fun typeof :: "jsval \<Rightarrow> string" where
  "typeof JUndefined = ''undefined''"
| "typeof JNull = ''object''"
| "typeof (JBool b) = ''boolean''"
| "typeof (JNum n) = ''number''"
| "typeof (JStr s) = ''string''"
| "typeof JObject = ''object''"

text \<open>
  The string and the number a value holds. Both are applied only to values whose \<^verbatim>\<open>typeof\<close>
  has been checked; the other equations are never reached.
\<close>

fun str_of :: "jsval \<Rightarrow> string" where
  "str_of (JStr s) = s"
| "str_of v = []"

fun num_of :: "jsval \<Rightarrow> jsnum" where
  "num_of (JNum n) = n"
| "num_of v = NaN"

section \<open>The transcript formatter (\<^verbatim>\<open>transcript-formatter.ts\<close>)\<close>

text \<open>
  \<^verbatim>\<open>interface TranscriptSegment { text: string; offset: number; duration: number }\<close>.
  The field \<^verbatim>\<open>text\<close> is named \<open>seg_text\<close> here.
\<close>

record TranscriptSegment =
  seg_text :: string
  offset :: jsnum
  duration :: jsnum

text \<open>A segment as \<^verbatim>\<open>formatTranscript\<close> receives it, before its run-time checks.\<close>

record raw_segment =
  raw_text :: jsval
  raw_offset :: jsval
  raw_duration :: jsval

text \<open>\<^verbatim>\<open>throw new Error(message)\<close>.\<close>

datatype error = Error string

subsection \<open>\<^verbatim>\<open>formatTime\<close>\<close>

definition formatTime :: "jsnum \<Rightarrow> bool \<Rightarrow> string" where
  "formatTime seconds vtt =
     (let hours = js_floor (js_div seconds 3600);
          minutes = js_floor (js_div (js_mod seconds 3600) 60);
          secs = js_floor (js_mod seconds 60);
          ms = js_floor (js_mul (js_mod seconds 1) 1000)
      in if vtt
         then padStart 2 (numToString hours) @ '':'' @ padStart 2 (numToString minutes) @ '':''
              @ padStart 2 (numToString secs) @ ''.'' @ padStart 3 (numToString ms)
         else padStart 2 (numToString hours) @ '':'' @ padStart 2 (numToString minutes) @ '':''
              @ padStart 2 (numToString secs) @ '','' @ padStart 3 (numToString ms))"

subsection \<open>The five renderings\<close>

definition formatAsTxt :: "TranscriptSegment list \<Rightarrow> string" where
  "formatAsTxt transcript =
     join [CHR 0x0A, CHR 0x0A] (map (\<lambda>segment. trim (seg_text segment)) transcript)"

text \<open>
  \<^verbatim>\<open>JSON.stringify(transcript, null, 2)\<close>, for segments that are objects with the three
  properties of the interface in its order, as the resolver builds them. A string is
  quoted with its control characters escaped; a number that is not finite prints as
  \<^verbatim>\<open>null\<close>.
\<close>

definition hex_digit :: "nat \<Rightarrow> char" where
  "hex_digit d = ''0123456789abcdef'' ! d"

definition json_char :: "char \<Rightarrow> string" where
  "json_char c =
     (let n = (of_char c :: nat)
      in if c = CHR 0x22 then [CHR 0x5C, CHR 0x22]
         else if c = CHR 0x5C then [CHR 0x5C, CHR 0x5C]
         else if c = CHR 0x08 then [CHR 0x5C, CHR ''b'']
         else if c = CHR 0x09 then [CHR 0x5C, CHR ''t'']
         else if c = CHR 0x0A then [CHR 0x5C, CHR ''n'']
         else if c = CHR 0x0C then [CHR 0x5C, CHR ''f'']
         else if c = CHR 0x0D then [CHR 0x5C, CHR ''r'']
         else if n < 32 then [CHR 0x5C, CHR ''u'', CHR ''0'', CHR ''0'', hex_digit (n div 16), hex_digit (n mod 16)]
         else [c])"

definition json_string :: "string \<Rightarrow> string" where
  "json_string s = [CHR 0x22] @ concat (map json_char s) @ [CHR 0x22]"

fun json_number :: "jsnum \<Rightarrow> string" where
  "json_number (Fin a) = numToString (Fin a)"
| "json_number x = ''null''"

definition json_segment :: "TranscriptSegment \<Rightarrow> string" where
  "json_segment segment =
     ''  {'' @ [CHR 0x0A]
     @ ''    '' @ json_string ''text'' @ '': '' @ json_string (seg_text segment) @ '','' @ [CHR 0x0A]
     @ ''    '' @ json_string ''offset'' @ '': '' @ json_number (offset segment) @ '','' @ [CHR 0x0A]
     @ ''    '' @ json_string ''duration'' @ '': '' @ json_number (duration segment) @ [CHR 0x0A]
     @ ''  }''"

definition formatAsJson :: "TranscriptSegment list \<Rightarrow> string" where
  "formatAsJson transcript =
     (if transcript = [] then ''[]''
      else ''['' @ [CHR 0x0A] @ join ('','' @ [CHR 0x0A]) (map json_segment transcript)
           @ [CHR 0x0A] @ '']'')"

definition formatAsCsv :: "TranscriptSegment list \<Rightarrow> string" where
  "formatAsCsv transcript =
     (let headers = ''Start Time,Duration,Text'' @ [CHR 0x0A];
          rows = map (\<lambda>segment.
                   let startTime = formatTime (offset segment) False;
                       duration = formatTime (duration segment) False;
                       text = trim (replaceAll (CHR 0x0A) '' ''
                                (replaceAll (CHR 0x22) [CHR 0x22, CHR 0x22] (seg_text segment)))
                   in startTime @ '','' @ duration @ '','' @ [CHR 0x22] @ text @ [CHR 0x22])
                 transcript
      in headers @ join [CHR 0x0A] rows)"

text \<open>\<^verbatim>\<open>transcript.map((segment, index) => ...)\<close>: the callback with the index it is given.\<close>

fun map_index :: "nat \<Rightarrow> (nat \<Rightarrow> 'a \<Rightarrow> 'b) \<Rightarrow> 'a list \<Rightarrow> 'b list" where
  "map_index index f [] = []"
| "map_index index f (x # xs) = f index x # map_index (Suc index) f xs"

text \<open>
  An array index is an integer below \<open>2 ^ 32\<close>, so \<^verbatim>\<open>${index + 1}\<close> is the decimal numeral
  of \<open>index + 1\<close>.
\<close>

definition formatAsSrt :: "TranscriptSegment list \<Rightarrow> string" where
  "formatAsSrt transcript =
     join [CHR 0x0A]
       (map_index 0 (\<lambda>index segment.
          let startTime = formatTime (offset segment) False;
              endTime = formatTime (js_add (offset segment) (duration segment)) False;
              text = trim (seg_text segment)
          in digits10 (index + 1) @ [CHR 0x0A] @ startTime @ '' --> '' @ endTime @ [CHR 0x0A]
             @ text @ [CHR 0x0A])
        transcript)"

definition formatAsVtt :: "TranscriptSegment list \<Rightarrow> string" where
  "formatAsVtt transcript =
     (let header = ''WEBVTT'' @ [CHR 0x0A, CHR 0x0A];
          cues = map_index 0 (\<lambda>index segment.
                   let startTime = formatTime (offset segment) True;
                       endTime = formatTime (js_add (offset segment) (duration segment)) True;
                       text = trim (seg_text segment)
                   in startTime @ '' --> '' @ endTime @ [CHR 0x0A] @ text)
                 transcript
      in header @ join [CHR 0x0A, CHR 0x0A] cues)"

subsection \<open>\<^verbatim>\<open>formatTranscript\<close>\<close>

text \<open>
  The \<^verbatim>\<open>forEach\<close> loop of the validation, from \<open>index\<close> on. It throws at the first segment
  that fails a check; when no segment does, the segments have the types of the interface,
  and the loop hands them on with these types.
\<close>

fun checkSegments :: "nat \<Rightarrow> raw_segment list \<Rightarrow> error + TranscriptSegment list" where
  "checkSegments index [] = Inr []"
| "checkSegments index (segment # rest) =
     (if \<not> truthy (raw_text segment) \<or> typeof (raw_text segment) \<noteq> ''string''
      then Inl (Error (''Invalid text in segment '' @ digits10 index))
      else if typeof (raw_duration segment) \<noteq> ''number''
              \<or> js_lt (num_of (raw_duration segment)) (Fin 0)
      then Inl (Error (''Invalid duration in segment '' @ digits10 index))
      else if typeof (raw_offset segment) \<noteq> ''number''
              \<or> js_lt (num_of (raw_offset segment)) (Fin 0)
      then Inl (Error (''Invalid offset in segment '' @ digits10 index))
      else (case checkSegments (Suc index) rest of
              Inl e \<Rightarrow> Inl e
            | Inr checked \<Rightarrow>
                Inr (\<lparr>seg_text = str_of (raw_text segment),
                      offset = num_of (raw_offset segment),
                      duration = num_of (raw_duration segment)\<rparr> # checked)))"

definition dispatch :: "string \<Rightarrow> TranscriptSegment list \<Rightarrow> string" where
  "dispatch format transcript =
     (let f = toLowerCase format
      in if f = ''txt'' then formatAsTxt transcript
         else if f = ''json'' then formatAsJson transcript
         else if f = ''csv'' then formatAsCsv transcript
         else if f = ''srt'' then formatAsSrt transcript
         else if f = ''vtt'' then formatAsVtt transcript
         else formatAsTxt transcript)"

definition formatTranscript :: "raw_segment list \<Rightarrow> string \<Rightarrow> error + string" where
  "formatTranscript transcript format =
     (if transcript = [] then Inl (Error ''Empty transcript provided'')
      else (case checkSegments 0 transcript of
              Inl e \<Rightarrow> Inl e
            | Inr checked \<Rightarrow> Inr (dispatch format checked)))"

section \<open>The transcript resolver (\<^verbatim>\<open>youtube-transcript.ts\<close>)\<close>

subsection \<open>State and environment\<close>

text \<open>
  The module keeps two variables, \<^verbatim>\<open>lastRequestTime\<close> and \<^verbatim>\<open>consecutiveFailures\<close>. The state
  of the model holds them, and three records of what the module did: how many times it
  has read \<^verbatim>\<open>Date.now()\<close>, the delays it has handed to \<^verbatim>\<open>setTimeout\<close> and the requests
  it has sent to the two caption libraries, oldest first.
\<close>

datatype request = StrategyA string | StrategyB string

record rstate =
  lastRequestTime :: int
  consecutiveFailures :: int
  clockReads :: nat
  waits :: "rat list"
  requests :: "request list"

text \<open>
  What \<^verbatim>\<open>YoutubeTranscript.fetchTranscript\<close> (strategy A) answers: it throws an error,
  with or without a \<^verbatim>\<open>message\<close>; or it returns an array of segments; or it returns
  something that is not an array. A field of a segment it returns may be missing.
\<close>

record a_segment =
  a_text :: "string option"
  a_offset :: "jsnum option"
  a_duration :: "jsnum option"

datatype a_reply = AThrows "string option" | ANoArray | AArray "a_segment list"

text \<open>
  What \<^verbatim>\<open>youtubei.js\<close> (strategy B) answers. An entry of a segment list is a
  \<^verbatim>\<open>TranscriptSegment\<close> item (an object whose \<^verbatim>\<open>type\<close> is that string) or anything else.
  The transcript object keeps its segment list in one of four places; each field below
  is the array found at that place, if there is one.
\<close>

record snippet_value =
  snippet_text :: "string option"
  snippet_runs :: "string option list option"

record item =
  snippet :: "snippet_value option"
  start_ms :: "string option"
  end_ms :: "string option"

datatype entry = SegmentItem item | OtherEntry

record transcript_obj =
  body_content :: "entry list option"
  initial_segments :: "entry list option"
  content :: "entry list option"
  self_array :: "entry list option"

datatype b_reply = BThrows string | BReturns "transcript_obj option"

text \<open>
  The environment of one call: the successive values of \<^verbatim>\<open>Date.now()\<close> and the answers
  of the two libraries.
\<close>

record world =
  clock :: "nat \<Rightarrow> int"
  fetchTranscript :: "string \<Rightarrow> a_reply"
  getTranscript :: "string \<Rightarrow> b_reply"

subsection \<open>\<^verbatim>\<open>smartRateLimit\<close>\<close>

definition baseDelay :: rat where "baseDelay = 500"
definition maxDelay :: rat where "maxDelay = 5000"
definition backoffMultiplier :: rat where "backoffMultiplier = 3 / 2"

text \<open>
  \<^verbatim>\<open>Math.pow(x, n)\<close> for an integer \<open>n\<close>. The counter is never negative, and for
  \<open>0 \<le> n\<close> the delay below is the number the program computes: up to \<open>n = 5\<close> the power
  of \<open>3 / 2\<close> and its product with 500 are binary64 values, and from \<open>n = 6\<close> on the
  product exceeds 5000, so that the minimum is 5000.
\<close>

definition mathPow :: "rat \<Rightarrow> int \<Rightarrow> rat" where
  "mathPow x n = (if 0 \<le> n then x ^ nat n else 1 / x ^ nat (- n))"

definition dynamicDelay :: "int \<Rightarrow> rat" where
  "dynamicDelay failures = min (baseDelay * mathPow backoffMultiplier failures) maxDelay"

definition smartRateLimit :: "world \<Rightarrow> rstate \<Rightarrow> rstate" where
  "smartRateLimit w st =
     (let now = clock w (clockReads st);
          timeSinceLastRequest = of_int (now - lastRequestTime st);
          st1 = st\<lparr>clockReads := clockReads st + 1\<rparr>;
          st2 = (if timeSinceLastRequest < dynamicDelay (consecutiveFailures st)
                 then st1\<lparr>waits := waits st1
                              @ [dynamicDelay (consecutiveFailures st) - timeSinceLastRequest]\<rparr>
                 else st1)
      in st2\<lparr>lastRequestTime := clock w (clockReads st2), clockReads := clockReads st2 + 1\<rparr>)"

subsection \<open>Strategy A\<close>

text \<open>\<^verbatim>\<open>x || 0\<close> for a number that may be missing.\<close>

definition or_zero :: "jsnum option \<Rightarrow> jsnum" where
  "or_zero x = (case x of None \<Rightarrow> Fin 0 | Some n \<Rightarrow> if num_truthy n then n else Fin 0)"

text \<open>The callback of \<^verbatim>\<open>transcript.map\<close>, the same at both places.\<close>

definition toSegment :: "a_segment \<Rightarrow> TranscriptSegment" where
  "toSegment segment =
     \<lparr>seg_text = (case a_text segment of None \<Rightarrow> [] | Some t \<Rightarrow> trim t),
      offset = js_max0 (or_zero (a_offset segment)),
      duration = js_max0 (or_zero (a_duration segment))\<rparr>"

definition callA :: "world \<Rightarrow> string \<Rightarrow> rstate \<Rightarrow> a_reply \<times> rstate" where
  "callA w target st = (fetchTranscript w target, st\<lparr>requests := requests st @ [StrategyA target]\<rparr>)"

text \<open>\<^verbatim>\<open>error.message?.includes(s)\<close>.\<close>

definition message_includes :: "string option \<Rightarrow> string \<Rightarrow> bool" where
  "message_includes message s = (case message of None \<Rightarrow> False | Some m \<Rightarrow> str_includes m s)"

subsection \<open>Strategy B: \<^verbatim>\<open>fetchTranscriptWithYoutubeI\<close>\<close>

text \<open>
  \<^verbatim>\<open>parseInt(s)\<close>: white space, a sign, \<^verbatim>\<open>0x\<close> for radix 16, then the longest run of
  digits; \<^verbatim>\<open>NaN\<close> when there is no digit.
\<close>

definition digit_value :: "char \<Rightarrow> nat" where
  "digit_value c =
     (let n = (of_char c :: nat)
      in if 48 \<le> n \<and> n \<le> 57 then n - 48
         else if 97 \<le> n \<and> n \<le> 122 then n - 87
         else if 65 \<le> n \<and> n \<le> 90 then n - 55
         else 36)"

fun radix_value :: "nat \<Rightarrow> nat \<Rightarrow> string \<Rightarrow> nat" where
  "radix_value radix acc [] = acc"
| "radix_value radix acc (c # cs) = radix_value radix (acc * radix + digit_value c) cs"

definition parseInt :: "string \<Rightarrow> jsnum" where
  "parseInt str =
     (let s = dropWhile is_ws str;
          negative = (take 1 s = ''-'');
          s1 = (if take 1 s = ''-'' \<or> take 1 s = ''+'' then drop 1 s else s);
          hex = (take 2 s1 = ''0x'' \<or> take 2 s1 = ''0X'');
          radix = (if hex then 16 else 10);
          s2 = (if hex then drop 2 s1 else s1);
          z = takeWhile (\<lambda>c. digit_value c < radix) s2
      in if z = [] then NaN
         else round64 ((if negative then - 1 else 1) * of_nat (radix_value radix 0 z)))"

text \<open>\<^verbatim>\<open>x || "0"\<close> for a string that may be missing.\<close>

definition or_zero_string :: "string option \<Rightarrow> string" where
  "or_zero_string x = (case x of None \<Rightarrow> ''0'' | Some s \<Rightarrow> if s = [] then ''0'' else s)"

definition runs_text :: "snippet_value \<Rightarrow> string" where
  "runs_text sn =
     (case snippet_runs sn of
        None \<Rightarrow> []
      | Some rs \<Rightarrow> concat (map (\<lambda>run. case run of None \<Rightarrow> [] | Some t \<Rightarrow> t) rs))"

definition item_text :: "item \<Rightarrow> string" where
  "item_text it =
     (case snippet it of
        None \<Rightarrow> []
      | Some sn \<Rightarrow>
          (case snippet_text sn of
             None \<Rightarrow> runs_text sn
           | Some t \<Rightarrow> if t \<noteq> [] then t else runs_text sn))"

text \<open>The loop over \<^verbatim>\<open>transcriptContent\<close>, pushing onto \<open>segments\<close>.\<close>

fun segmentsLoop :: "entry list \<Rightarrow> TranscriptSegment list \<Rightarrow> TranscriptSegment list" where
  "segmentsLoop [] segments = segments"
| "segmentsLoop (OtherEntry # rest) segments = segmentsLoop rest segments"
| "segmentsLoop (SegmentItem it # rest) segments =
     (let text = item_text it;
          startMs = parseInt (or_zero_string (start_ms it));
          endMs = parseInt (or_zero_string (end_ms it));
          durationMs = js_sub endMs startMs
      in if text \<noteq> [] \<and> trim text \<noteq> []
         then segmentsLoop rest
                (segments @ [\<lparr>seg_text = trim text,
                               offset = js_floor (js_div startMs 1000),
                               duration = js_floor (js_div durationMs 1000)\<rparr>])
         else segmentsLoop rest segments)"

definition transcriptContent :: "transcript_obj \<Rightarrow> entry list" where
  "transcriptContent transcriptObj =
     (case body_content transcriptObj of
        Some c \<Rightarrow> c
      | None \<Rightarrow>
          (case initial_segments transcriptObj of
             Some c \<Rightarrow> c
           | None \<Rightarrow>
               (case content transcriptObj of
                  Some c \<Rightarrow> c
                | None \<Rightarrow> (case self_array transcriptObj of Some c \<Rightarrow> c | None \<Rightarrow> []))))"

definition fetchTranscriptWithYoutubeI :: "world \<Rightarrow> string \<Rightarrow> error + TranscriptSegment list" where
  "fetchTranscriptWithYoutubeI w videoId =
     (case getTranscript w videoId of
        BThrows message \<Rightarrow> Inl (Error message)
      | BReturns None \<Rightarrow> Inl (Error ''No transcript data returned from youtubei.js'')
      | BReturns (Some transcriptObj) \<Rightarrow>
          if transcriptContent transcriptObj = []
          then Inl (Error ''No transcript content found in response'')
          else Inr (segmentsLoop (transcriptContent transcriptObj) []))"

definition callB :: "world \<Rightarrow> string \<Rightarrow> rstate \<Rightarrow> (error + TranscriptSegment list) \<times> rstate" where
  "callB w videoId st =
     (fetchTranscriptWithYoutubeI w videoId, st\<lparr>requests := requests st @ [StrategyB videoId]\<rparr>)"

subsection \<open>\<^verbatim>\<open>getYouTubeTranscript\<close>\<close>

definition decrementFailures :: "rstate \<Rightarrow> rstate" where
  "decrementFailures st = st\<lparr>consecutiveFailures := max 0 (consecutiveFailures st - 1)\<rparr>"

definition errorMessage :: "string \<Rightarrow> string" where
  "errorMessage videoId =
     ''No transcript available for video '' @ videoId @ ''. This could be because:'' @ [CHR 0x0A]
     @ ''- The video doesn'' @ [CHR 0x27] @ ''t have captions enabled'' @ [CHR 0x0A]
     @ ''- The video is private, restricted, or unavailable  '' @ [CHR 0x0A]
     @ ''- Transcripts are disabled by the video owner'' @ [CHR 0x0A]
     @ ''- There'' @ [CHR 0x27] @ ''s a temporary issue with YouTube'' @ [CHR 0x27]
     @ ''s caption service'' @ [CHR 0x0A]
     @ [CHR 0x0A]
     @ ''Please try a different video or check if the video has captions available on YouTube directly.''"

definition urlFormats :: "string \<Rightarrow> string list" where
  "urlFormats videoId =
     [''https://www.youtube.com/watch?v='' @ videoId, ''https://youtu.be/'' @ videoId]"

text \<open>
  The loop over \<^verbatim>\<open>urlFormats\<close>: \<open>Some\<close> segments when an attempt returns from the
  function, \<open>None\<close> when the loop runs out.
\<close>

fun urlLoop :: "world \<Rightarrow> string list \<Rightarrow> rstate \<Rightarrow> TranscriptSegment list option \<times> rstate" where
  "urlLoop w [] st = (None, st)"
| "urlLoop w (url # urls) st =
     (case callA w url (smartRateLimit w st) of
        (AArray transcript, st1) \<Rightarrow>
          if transcript \<noteq> [] then (Some (map toSegment transcript), decrementFailures st1)
          else urlLoop w urls st1
      | (r, st1) \<Rightarrow> urlLoop w urls st1)"

text \<open>Strategy B, the two URL forms and the final failure: what follows the first \<^verbatim>\<open>try\<close>.\<close>

definition fallback :: "world \<Rightarrow> string \<Rightarrow> rstate \<Rightarrow> (error + TranscriptSegment list) \<times> rstate" where
  "fallback w videoId st =
     (case callB w videoId (smartRateLimit w st) of
        (Inr (x # xs), st1) \<Rightarrow> (Inr (x # xs), decrementFailures st1)
      | (r, st1) \<Rightarrow>
          (case urlLoop w (urlFormats videoId) st1 of
             (Some transcript, st2) \<Rightarrow> (Inr transcript, st2)
           | (None, st2) \<Rightarrow>
               (Inl (Error (errorMessage videoId)),
                st2\<lparr>consecutiveFailures := consecutiveFailures st2 + 1,
                     clockReads := clockReads st2 + 1\<rparr>)))"

definition getYouTubeTranscript ::
    "world \<Rightarrow> string \<Rightarrow> rstate \<Rightarrow> (error + TranscriptSegment list) \<times> rstate" where
  "getYouTubeTranscript w videoId st0 =
     (let st = st0\<lparr>clockReads := clockReads st0 + 1\<rparr>
      in if videoId = [] then (Inl (Error ''Invalid video ID provided''), st)
         else (case callA w videoId (smartRateLimit w st) of
                 (AArray transcript, st1) \<Rightarrow>
                   if transcript \<noteq> [] then (Inr (map toSegment transcript), decrementFailures st1)
                   else fallback w videoId st1
               | (AThrows message, st1) \<Rightarrow>
                   if message_includes message ''Transcript is disabled''
                   then (Inl (Error ''Transcripts are disabled for this video''), st1)
                   else if message_includes message ''Video unavailable''
                   then (Inl (Error ''Video is unavailable or has been removed''), st1)
                   else if message_includes message ''private''
                   then (Inl (Error ''Video is private or restricted''), st1)
                   else fallback w videoId st1
               | (ANoArray, st1) \<Rightarrow> fallback w videoId st1))"

text \<open>A sequence of calls, each in its own environment.\<close>

fun resolveAll :: "(world \<times> string) list \<Rightarrow> rstate \<Rightarrow> rstate" where
  "resolveAll [] st = st"
| "resolveAll ((w, videoId) # rest) st = resolveAll rest (snd (getYouTubeTranscript w videoId st))"

text \<open>The state of a freshly loaded module.\<close>

definition initial_state :: rstate where
  "initial_state =
     \<lparr>lastRequestTime = 0, consecutiveFailures = 0, clockReads = 0, waits = [], requests = []\<rparr>"

section \<open>Example environments\<close>

text \<open>
  Strategy A fails with an error the resolver does not recognise, and strategy B answers
  with one caption whose \<^verbatim>\<open>end_ms\<close> lies before its \<^verbatim>\<open>start_ms\<close>.
\<close>

definition backwards_item :: entry where
  "backwards_item =
     SegmentItem \<lparr>snippet = Some \<lparr>snippet_text = Some ''hi'', snippet_runs = None\<rparr>,
                  start_ms = Some ''5000'', end_ms = Some ''3000''\<rparr>"

definition backwards_world :: world where
  "backwards_world =
     \<lparr>clock = (\<lambda>n. 0),
      fetchTranscript = (\<lambda>target. AThrows (Some ''fetch failed'')),
      getTranscript = (\<lambda>videoId. BReturns (Some
         \<lparr>body_content = Some [backwards_item], initial_segments = None,
          content = None, self_array = None\<rparr>))\<rparr>"

text \<open>
  Strategy A answers the bare id with two captions; the module has two failures on its
  counter.
\<close>

definition two_failures :: rstate where
  "two_failures =
     \<lparr>lastRequestTime = 0, consecutiveFailures = 2, clockReads = 0, waits = [], requests = []\<rparr>"

definition captions_world :: world where
  "captions_world =
     \<lparr>clock = (\<lambda>n. 1000 * int n),
      fetchTranscript = (\<lambda>target. AArray
         [\<lparr>a_text = Some '' first '', a_offset = Some (Fin 0), a_duration = Some (Fin 2)\<rparr>,
          \<lparr>a_text = Some ''second'', a_offset = Some (Fin 2), a_duration = None\<rparr>]),
      getTranscript = (\<lambda>videoId. BThrows ''not asked'')\<rparr>"

text \<open>Strategy A says that the video is unavailable.\<close>

definition unavailable_world :: world where
  "unavailable_world =
     \<lparr>clock = (\<lambda>n. 1000 * int n),
      fetchTranscript = (\<lambda>target. AThrows (Some ''Video unavailable (removed)'')),
      getTranscript = (\<lambda>videoId. BThrows ''not asked'')\<rparr>"


text \<open>Segments for the formatter: a caption, one whose text is a single space, one without text.\<close>

definition hello_segment :: raw_segment where
  "hello_segment = \<lparr>raw_text = JStr ''hello '', raw_offset = JNum (Fin 0), raw_duration = JNum (Fin 2)\<rparr>"

definition blank_segment :: raw_segment where
  "blank_segment = \<lparr>raw_text = JStr '' '', raw_offset = JNum (Fin 2), raw_duration = JNum (Fin 1)\<rparr>"

definition textless_segment :: raw_segment where
  "textless_segment = \<lparr>raw_text = JUndefined, raw_offset = JNum (Fin 2), raw_duration = JNum (Fin 1)\<rparr>"

section \<open>Notions of the statements\<close>

text \<open>A segment that passes the three checks of \<^verbatim>\<open>formatTranscript\<close>, and its typed reading.\<close>

definition passes_checks :: "raw_segment \<Rightarrow> bool" where
  "passes_checks s =
     (typeof (raw_text s) = ''string'' \<and> truthy (raw_text s)
      \<and> typeof (raw_duration s) = ''number'' \<and> \<not> js_lt (num_of (raw_duration s)) (Fin 0)
      \<and> typeof (raw_offset s) = ''number'' \<and> \<not> js_lt (num_of (raw_offset s)) (Fin 0))"

definition typed :: "raw_segment \<Rightarrow> TranscriptSegment" where
  "typed s =
     \<lparr>seg_text = str_of (raw_text s), offset = num_of (raw_offset s),
      duration = num_of (raw_duration s)\<rparr>"

text \<open>
  An SRT block as the specification words it: the sequence number, the line
  \<^verbatim>\<open>start --> end\<close> with \<open>end = offset + duration\<close> in the time format with a comma, and
  the trimmed text.
\<close>

definition srt_block :: "nat \<Rightarrow> TranscriptSegment \<Rightarrow> string list" where
  "srt_block number s =
     [digits10 number,
      formatTime (offset s) False @ '' --> '' @ formatTime (js_add (offset s) (duration s)) False,
      trim (seg_text s)]"



text \<open>
  What the attempts of a resolution do to the state, whatever their outcome: they read the
  clock, they pace, and they send requests. \<open>attempts w st st'\<close> holds when \<open>st'\<close> is reached
  from \<open>st\<close> by such steps alone.
\<close>

inductive attempts :: "world \<Rightarrow> rstate \<Rightarrow> rstate \<Rightarrow> bool" for w :: world and st :: rstate where
  nothing: "attempts w st st"
| reading: "attempts w st st' \<Longrightarrow> attempts w st (st'\<lparr>clockReads := clockReads st' + 1\<rparr>)"
| pacing: "attempts w st st' \<Longrightarrow> attempts w st (smartRateLimit w st')"
| sending: "attempts w st st' \<Longrightarrow> attempts w st (st'\<lparr>requests := requests st' @ [r]\<rparr>)"

section \<open>Properties of the rate limiter and the resolver\<close>

lemma smartRateLimit_failures [simp]:
  "consecutiveFailures (smartRateLimit w st) = consecutiveFailures st"
  by (simp add: smartRateLimit_def Let_def)

lemma smartRateLimit_requests [simp]:
  "requests (smartRateLimit w st) = requests st"
  by (simp add: smartRateLimit_def Let_def)

lemma callA_simps [simp]:
  "fst (callA w target st) = fetchTranscript w target"
  "consecutiveFailures (snd (callA w target st)) = consecutiveFailures st"
  "requests (snd (callA w target st)) = requests st @ [StrategyA target]"
  by (simp_all add: callA_def)

lemma callB_simps [simp]:
  "fst (callB w v st) = fetchTranscriptWithYoutubeI w v"
  "consecutiveFailures (snd (callB w v st)) = consecutiveFailures st"
  "requests (snd (callB w v st)) = requests st @ [StrategyB v]"
  by (simp_all add: callB_def)

lemma decrementFailures_simps [simp]:
  "consecutiveFailures (decrementFailures st) = max 0 (consecutiveFailures st - 1)"
  "requests (decrementFailures st) = requests st"
  by (simp_all add: decrementFailures_def)

lemma urlLoop_Cons:
  "urlLoop w (url # urls) st =
     (case fetchTranscript w url of
        AArray transcript \<Rightarrow>
          if transcript \<noteq> []
          then (Some (map toSegment transcript),
                decrementFailures (snd (callA w url (smartRateLimit w st))))
          else urlLoop w urls (snd (callA w url (smartRateLimit w st)))
      | AThrows m \<Rightarrow> urlLoop w urls (snd (callA w url (smartRateLimit w st)))
      | ANoArray \<Rightarrow> urlLoop w urls (snd (callA w url (smartRateLimit w st))))"
  by (simp add: callA_def split: a_reply.splits)

lemma urlLoop_failures:
  "consecutiveFailures (snd (urlLoop w urls st)) =
     (case fst (urlLoop w urls st) of
        None \<Rightarrow> consecutiveFailures st
      | Some segments \<Rightarrow> max 0 (consecutiveFailures st - 1))"
proof (induction urls arbitrary: st)
  case Nil
  show ?case by simp
next
  case (Cons url urls)
  show ?case
    using Cons.IH[of "snd (callA w url (smartRateLimit w st))"]
    by (cases "fetchTranscript w url")
       (simp_all add: urlLoop_Cons del: urlLoop.simps split: option.splits)
qed



text \<open>What follows the first attempt.\<close>

lemma fallback_failures:
  "consecutiveFailures (snd (fallback w v st)) =
     (case fst (fallback w v st) of
        Inl e \<Rightarrow> consecutiveFailures st + 1
      | Inr segments \<Rightarrow> max 0 (consecutiveFailures st - 1))"
proof -
  let ?st1 = "snd (callB w v (smartRateLimit w st))"
  have loop: "consecutiveFailures (snd (urlLoop w (urlFormats v) ?st1)) =
     (case fst (urlLoop w (urlFormats v) ?st1) of
        None \<Rightarrow> consecutiveFailures st
      | Some segments \<Rightarrow> max 0 (consecutiveFailures st - 1))"
    using urlLoop_failures[of w "urlFormats v" ?st1] by (simp split: option.splits)
  show ?thesis
    using loop
    by (cases "urlLoop w (urlFormats v) ?st1")
       (auto simp add: fallback_def callB_def split: sum.splits list.splits option.splits)
qed

lemma getYouTubeTranscript_success:
  "fst (getYouTubeTranscript w v st) = Inr segments \<Longrightarrow>
     consecutiveFailures (snd (getYouTubeTranscript w v st)) = max 0 (consecutiveFailures st - 1)"
proof -
  assume ok: "fst (getYouTubeTranscript w v st) = Inr segments"
  let ?st1 = "snd (callA w v (smartRateLimit w (st\<lparr>clockReads := clockReads st + 1\<rparr>)))"
  have fb: "fst (fallback w v ?st1) = Inr segments \<Longrightarrow>
      consecutiveFailures (snd (fallback w v ?st1)) = max 0 (consecutiveFailures st - 1)"
    using fallback_failures[of w v ?st1] by simp
  show ?thesis
    using ok fb
    by (cases "fetchTranscript w v")
       (auto simp add: getYouTubeTranscript_def Let_def callA_def split: if_splits)
qed

lemma getYouTubeTranscript_failures_bounds:
  "consecutiveFailures (snd (getYouTubeTranscript w v st)) \<ge> min (consecutiveFailures st) (max 0 (consecutiveFailures st - 1))"
proof -
  let ?st1 = "snd (callA w v (smartRateLimit w (st\<lparr>clockReads := clockReads st + 1\<rparr>)))"
  have fb: "min (consecutiveFailures st) (max 0 (consecutiveFailures st - 1)) \<le> consecutiveFailures (snd (fallback w v ?st1))"
    using fallback_failures[of w v ?st1] by (simp split: sum.splits)
  show ?thesis
    using fb
    by (cases "fetchTranscript w v")
       (auto simp add: getYouTubeTranscript_def Let_def callA_def split: if_splits)
qed


text \<open>A successful resolution: attempts, then the decrement.\<close>

lemma attempts_failures:
  "attempts w st st' \<Longrightarrow> consecutiveFailures st' = consecutiveFailures st"
  by (induction rule: attempts.induct) simp_all

lemma attempts_callA:
  "attempts w st st' \<Longrightarrow> attempts w st (snd (callA w target (smartRateLimit w st')))"
  using attempts.sending[OF attempts.pacing, of w st st' "StrategyA target"]
  by (simp add: callA_def)

lemma attempts_callB:
  "attempts w st st' \<Longrightarrow> attempts w st (snd (callB w v (smartRateLimit w st')))"
  using attempts.sending[OF attempts.pacing, of w st st' "StrategyB v"]
  by (simp add: callB_def)

lemma urlLoop_success:
  "attempts w st0 st \<Longrightarrow> fst (urlLoop w urls st) = Some segments \<Longrightarrow>
     \<exists>st1. attempts w st0 st1 \<and> snd (urlLoop w urls st) = decrementFailures st1"
proof (induction urls arbitrary: st)
  case Nil
  then show ?case by simp
next
  case (Cons url urls)
  have step: "attempts w st0 (snd (callA w url (smartRateLimit w st)))"
    using attempts_callA[OF Cons.prems(1)] .
  show ?case
    using Cons.IH[OF step] Cons.prems(2) step
    by (cases "fetchTranscript w url")
       (auto simp add: urlLoop_Cons simp del: urlLoop.simps split: if_splits)
qed

lemma fallback_success:
  assumes "attempts w st0 st" and "fst (fallback w v st) = Inr segments"
  shows "\<exists>st1. attempts w st0 st1 \<and> snd (fallback w v st) = decrementFailures st1"
proof -
  let ?st1 = "snd (callB w v (smartRateLimit w st))"
  have step: "attempts w st0 ?st1"
    using attempts_callB[OF assms(1)] .
  have loop: "\<And>segs. fst (urlLoop w (urlFormats v) ?st1) = Some segs \<Longrightarrow>
      \<exists>st1. attempts w st0 st1 \<and> snd (urlLoop w (urlFormats v) ?st1) = decrementFailures st1"
    using urlLoop_success[OF step] .
  show ?thesis
  proof (cases "urlLoop w (urlFormats v) ?st1")
    case (Pair r st2)
    show ?thesis
      using assms(2) step loop Pair
      by (cases r)
         (auto simp add: fallback_def callB_def split: sum.splits list.splits)
  qed
qed

lemma getYouTubeTranscript_success_frame:
  assumes "fst (getYouTubeTranscript w v st) = Inr segments"
  shows "\<exists>st1. attempts w st st1 \<and> snd (getYouTubeTranscript w v st) = decrementFailures st1"
proof -
  let ?st0 = "st\<lparr>clockReads := clockReads st + 1\<rparr>"
  let ?st1 = "snd (callA w v (smartRateLimit w ?st0))"
  have first: "attempts w st ?st1"
    using attempts_callA[OF attempts.reading[OF attempts.nothing]] .
  have fb: "fst (fallback w v ?st1) = Inr segments \<Longrightarrow>
      \<exists>st1. attempts w st st1 \<and> snd (fallback w v ?st1) = decrementFailures st1"
    using fallback_success[OF first] .
  show ?thesis
    using assms first fb
    by (cases "fetchTranscript w v")
       (auto simp add: getYouTubeTranscript_def Let_def callA_def split: if_splits)
qed

lemma getYouTubeTranscript_permanent:
  assumes "videoId \<noteq> []"
    and "fetchTranscript w videoId = AThrows (Some m)"
    and "str_includes m ''Transcript is disabled'' \<or> str_includes m ''Video unavailable''
         \<or> str_includes m ''private''"
  shows "getYouTubeTranscript w videoId st =
     (Inl (Error (if str_includes m ''Transcript is disabled''
                  then ''Transcripts are disabled for this video''
                  else if str_includes m ''Video unavailable''
                  then ''Video is unavailable or has been removed''
                  else ''Video is private or restricted'')),
      snd (callA w videoId (smartRateLimit w (st\<lparr>clockReads := clockReads st + 1\<rparr>))))"
  using assms by (auto simp add: getYouTubeTranscript_def Let_def callA_def message_includes_def)

text \<open>
  Claim C2. If the first attempt of strategy A throws an error whose message contains
  \<^verbatim>\<open>Transcript is disabled\<close>, \<^verbatim>\<open>Video unavailable\<close> or \<^verbatim>\<open>private\<close>, the
  resolution fails at once with the message mapped to the first of the three that occurs
  (in this order), the only request sent is that first one, and the failure counter is
  left as it was.
\<close>

theorem permanent_error_aborts:
  assumes "videoId \<noteq> []"
    and "fetchTranscript w videoId = AThrows (Some m)"
    and "str_includes m ''Transcript is disabled'' \<or> str_includes m ''Video unavailable''
         \<or> str_includes m ''private''"
  shows "fst (getYouTubeTranscript w videoId st) =
           Inl (Error (if str_includes m ''Transcript is disabled''
                       then ''Transcripts are disabled for this video''
                       else if str_includes m ''Video unavailable''
                       then ''Video is unavailable or has been removed''
                       else ''Video is private or restricted''))
       \<and> requests (snd (getYouTubeTranscript w videoId st)) = requests st @ [StrategyA videoId]
       \<and> consecutiveFailures (snd (getYouTubeTranscript w videoId st)) = consecutiveFailures st"
  by (simp add: getYouTubeTranscript_permanent[OF assms])






lemma resolveAll_nonneg:
  "0 \<le> consecutiveFailures st \<Longrightarrow> 0 \<le> consecutiveFailures (resolveAll calls st)"
proof (induction calls arbitrary: st)
  case Nil
  then show ?case by simp
next
  case (Cons c calls)
  obtain w v where c: "c = (w, v)" by (cases c)
  have "0 \<le> consecutiveFailures (snd (getYouTubeTranscript w v st))"
    using getYouTubeTranscript_failures_bounds[of st w v] Cons.prems by simp
  then show ?case
    using Cons.IH c by simp
qed

text \<open>
  Claim C4. From a failure counter that is not negative, the pacing and a resolution leave
  it not negative; a successful resolution leaves the counter at \<open>max 0 (n - 1)\<close>, and
  its final state is the state its attempts reach (clock readings, pacing, requests: none
  of them touches the counter) with that one decrement and nothing else; and no sequence
  of resolutions takes the counter below 0.
\<close>

theorem failure_counter_never_negative:
  "0 \<le> consecutiveFailures st \<Longrightarrow>
     0 \<le> consecutiveFailures (smartRateLimit w st)
   \<and> 0 \<le> consecutiveFailures (snd (getYouTubeTranscript w videoId st))
   \<and> (\<forall>segments. fst (getYouTubeTranscript w videoId st) = Inr segments \<longrightarrow>
         consecutiveFailures (snd (getYouTubeTranscript w videoId st))
           = max 0 (consecutiveFailures st - 1)
       \<and> (\<exists>st1. attempts w st st1
                 \<and> snd (getYouTubeTranscript w videoId st) = decrementFailures st1))
   \<and> 0 \<le> consecutiveFailures (resolveAll calls st)"
  using getYouTubeTranscript_failures_bounds[of st w videoId]
        getYouTubeTranscript_success[of w videoId st] resolveAll_nonneg[of st calls]
        getYouTubeTranscript_success_frame[of w videoId st]
  by simp



section \<open>Properties of the formatter\<close>

lemma checkSegments_passes:
  "\<forall>s\<in>set t. passes_checks s \<Longrightarrow> checkSegments index t = Inr (map typed t)"
  by (induction t arbitrary: index) (simp_all add: passes_checks_def typed_def)

lemma checkSegments_throws_iff:
  "(\<exists>e. checkSegments index t = Inl e) = (\<exists>s\<in>set t. \<not> passes_checks s)"
proof (induction t arbitrary: index)
  case Nil
  show ?case by simp
next
  case (Cons s t)
  show ?case
  proof (cases "passes_checks s")
    case True
    then show ?thesis
      using Cons.IH[of "Suc index"]
      by (auto simp add: passes_checks_def split: sum.splits)
  next
    case False
    then show ?thesis
      by (auto simp add: passes_checks_def)
  qed
qed

lemma checkSegments_format_free:
  "(formatTranscript t format = Inl e) = (formatTranscript t format' = Inl e)"
  by (simp add: formatTranscript_def split: sum.splits)

text \<open>
  Claim C5. \<^verbatim>\<open>formatTranscript\<close> throws exactly when the list is empty or some segment
  has a text that is not a string or is falsy, a duration that is not a number or is
  negative, or an offset that is not a number or is negative; and it throws the same
  error whatever the format is.
\<close>

theorem formatTranscript_throws_iff:
  "((\<exists>e. formatTranscript transcript format = Inl e) =
      (transcript = [] \<or>
       (\<exists>s\<in>set transcript.
          typeof (raw_text s) \<noteq> ''string'' \<or> \<not> truthy (raw_text s)
        \<or> typeof (raw_duration s) \<noteq> ''number'' \<or> js_lt (num_of (raw_duration s)) (Fin 0)
        \<or> typeof (raw_offset s) \<noteq> ''number'' \<or> js_lt (num_of (raw_offset s)) (Fin 0))))
   \<and> ((formatTranscript transcript format = Inl e) = (formatTranscript transcript format' = Inl e))"
proof -
  have "(\<exists>e. formatTranscript transcript format = Inl e) =
          (transcript = [] \<or> (\<exists>e. checkSegments 0 transcript = Inl e))"
    by (auto simp add: formatTranscript_def split: sum.splits)
  then show ?thesis
    using checkSegments_format_free[of transcript format e format']
    by (auto simp add: checkSegments_throws_iff passes_checks_def)
qed

lemma toLowerCase_txt: "toLowerCase ''txt'' = ''txt''"
  by (simp add: toLowerCase_def lower_char_def)

text \<open>
  Claim C8. A format whose lower-case form is none of \<^verbatim>\<open>txt\<close>, \<^verbatim>\<open>json\<close>, \<^verbatim>\<open>csv\<close>,
  \<^verbatim>\<open>srt\<close>, \<^verbatim>\<open>vtt\<close> gives the result of the format \<^verbatim>\<open>txt\<close> (for every list: the
  same error when the list does not pass the checks).
\<close>

theorem unknown_format_is_txt:
  "toLowerCase format \<notin> {''txt'', ''json'', ''csv'', ''srt'', ''vtt''} \<Longrightarrow>
     formatTranscript transcript format = formatTranscript transcript ''txt''"
  by (simp add: formatTranscript_def dispatch_def Let_def toLowerCase_txt split: sum.splits)

lemma trim_whitespace: "\<forall>c\<in>set w. is_ws c \<Longrightarrow> trim w = []"
proof -
  assume "\<forall>c\<in>set w. is_ws c"
  then have "dropWhile is_ws w = []" by simp
  then show ?thesis by (simp add: trim_def del: dropWhile_eq_Nil_conv)
qed

text \<open>
  Claim C10. A segment whose text is a non-empty string of white space passes the checks;
  in a list whose other segments pass them, \<^verbatim>\<open>formatTranscript\<close> throws nothing, and the
  \<^verbatim>\<open>txt\<close> rendering holds the empty string at the place of that segment.
\<close>

theorem whitespace_text_accepted:
  assumes "\<forall>s\<in>set (before @ after). passes_checks s"
    and "w \<noteq> []" and "\<forall>c\<in>set w. is_ws c"
    and "\<not> js_lt off (Fin 0)" and "\<not> js_lt dur (Fin 0)"
  shows "passes_checks \<lparr>raw_text = JStr w, raw_offset = JNum off, raw_duration = JNum dur\<rparr>
       \<and> formatTranscript
           (before @ [\<lparr>raw_text = JStr w, raw_offset = JNum off, raw_duration = JNum dur\<rparr>] @ after)
           ''txt''
         = Inr (join [CHR 0x0A, CHR 0x0A]
                  (map (\<lambda>s. trim (seg_text (typed s))) before @ [[]]
                   @ map (\<lambda>s. trim (seg_text (typed s))) after))"
proof -
  let ?s = "\<lparr>raw_text = JStr w, raw_offset = JNum off, raw_duration = JNum dur\<rparr>"
  have ok: "passes_checks ?s"
    using assms(2,4,5) by (simp add: passes_checks_def)
  have all: "\<forall>s\<in>set (before @ [?s] @ after). passes_checks s"
    using assms(1) ok by auto
  have blank: "trim (seg_text (typed ?s)) = []"
    using trim_whitespace[OF assms(3)] by (simp add: typed_def)
  show ?thesis
    using ok blank checkSegments_passes[OF all, of 0]
    by (simp add: formatTranscript_def dispatch_def Let_def toLowerCase_txt formatAsTxt_def comp_def)
qed

lemma map_index_nth:
  "map_index index f xs = map (\<lambda>i. f (index + i) (xs ! i)) [0..<length xs]"
proof (induction xs arbitrary: index)
  case Nil
  show ?case by simp
next
  case (Cons x xs)
  have "map (\<lambda>i. f (index + i) ((x # xs) ! i)) [0..<length (x # xs)] =
        f index x # map (\<lambda>i. f (index + Suc i) (xs ! i)) [0..<length xs]"
    by (simp add: map_upt_Suc del: upt_Suc)
  then show ?case
    using Cons.IH[of "Suc index"] by simp
qed

lemma join_terminated:
  "xs \<noteq> [] \<Longrightarrow> join sep (map (\<lambda>x. x @ sep) xs) = join (sep @ sep) xs @ sep"
proof (induction xs rule: join.induct[of _ sep])
  case 1
  then show ?case by simp
next
  case (2 x)
  show ?case by simp
next
  case (3 x y ys)
  then show ?case by simp
qed

lemma toLowerCase_srt: "toLowerCase ''srt'' = ''srt''"
  by (simp add: toLowerCase_def lower_char_def)

text \<open>
  Claim C9. For a list that is not empty and passes the checks, the SRT rendering is one
  block per segment, in the order of the list; block \<open>i\<close> (counted from 0) carries the number
  \<open>i + 1\<close>, then the line \<^verbatim>\<open>start --> end\<close> with \<open>end = offset + duration\<close>, then the trimmed
  text; consecutive blocks are separated by an empty line, and the last block ends with
  a line break.
\<close>

theorem srt_one_block_per_segment:
  assumes "transcript \<noteq> []" and "\<forall>s\<in>set transcript. passes_checks s"
  shows "formatTranscript transcript ''srt'' =
     Inr (join [CHR 0x0A, CHR 0x0A]
            (map (\<lambda>i. join [CHR 0x0A] (srt_block (i + 1) (typed (transcript ! i))))
               [0..<length transcript])
          @ [CHR 0x0A])"
proof -
  let ?block = "\<lambda>i. join [CHR 0x0A] (srt_block (i + 1) (typed (transcript ! i)))"
  have blocks: "map_index 0 (\<lambda>index segment.
          let startTime = formatTime (offset segment) False;
              endTime = formatTime (js_add (offset segment) (duration segment)) False;
              text = trim (seg_text segment)
          in digits10 (index + 1) @ [CHR 0x0A] @ startTime @ '' --> '' @ endTime @ [CHR 0x0A]
             @ text @ [CHR 0x0A]) (map typed transcript)
      = map (\<lambda>b. b @ [CHR 0x0A]) (map ?block [0..<length transcript])"
    by (simp add: map_index_nth srt_block_def Let_def)
  have nonempty: "map ?block [0..<length transcript] \<noteq> []"
    using assms(1) by simp
  have "formatAsSrt (map typed transcript) =
      join [CHR 0x0A, CHR 0x0A] (map ?block [0..<length transcript]) @ [CHR 0x0A]"
    unfolding formatAsSrt_def blocks
    using join_terminated[OF nonempty, of "[CHR 0x0A]"] by simp
  then show ?thesis
    using assms(1)
    by (simp add: formatTranscript_def checkSegments_passes[OF assms(2)] dispatch_def Let_def
          toLowerCase_srt)
qed

section \<open>Evaluations and instances\<close>

lemma round64_2: "round64 2 = Fin 2" by code_simp
lemma round64_3: "round64 3 = Fin 3" by code_simp
lemma round64_5: "round64 5 = Fin 5" by code_simp
lemma round64_5000: "round64 5000 = Fin 5000" by code_simp
lemma round64_3000: "round64 3000 = Fin 3000" by code_simp
lemma round64_m2: "round64 (- 2) = Fin (- 2)" by code_simp
lemma round64_m2000: "round64 (- 2000) = Fin (- 2000)" by code_simp
text \<open>The binary64 number nearest to 3661.234 is \<open>8051138710017671 / 2 ^ 41\<close>, just below it.\<close>

lemma round64_3661: "round64 (3661234 / 1000) = Fin (8051138710017671 / 2 ^ 41)" by code_simp

lemma formatTime_0: "formatTime (Fin 0) False = ''00:00:00,000''" by code_simp
lemma formatTime_2: "formatTime (Fin 2) False = ''00:00:02,000''" by code_simp
lemma formatTime_3: "formatTime (Fin 3) False = ''00:00:03,000''" by code_simp

lemma parseInt_5000: "parseInt ''5000'' = Fin 5000"
  by (simp add: parseInt_def is_ws_def digit_value_def round64_5000)

lemma parseInt_3000: "parseInt ''3000'' = Fin 3000"
  by (simp add: parseInt_def is_ws_def digit_value_def round64_3000)

text \<open>The segments of strategy A: offset and duration are clamped at 0.\<close>

lemma js_max0_or_zero: "js_ge0 (js_max0 (or_zero x))"
proof (cases x)
  case None
  then show ?thesis by (simp add: or_zero_def)
next
  case (Some n)
  then show ?thesis by (cases n) (simp_all add: or_zero_def)
qed

lemma toSegment_not_negative:
  "js_ge0 (offset (toSegment s)) \<and> js_ge0 (duration (toSegment s))"
  by (simp add: toSegment_def js_max0_or_zero)

text \<open>
  Claim C1. Every segment of a successful resolution has trimmed text, an offset that is
  not negative and a duration that is not negative; for strategy B in particular, for every
  pair \<^verbatim>\<open>start_ms\<close>, \<^verbatim>\<open>end_ms\<close>. The two paths of strategy A clamp with
  \<^verbatim>\<open>Math.max(0, ...)\<close> (lemma \<open>toSegment_not_negative\<close>), but \<^verbatim>\<open>fetchTranscriptWithYoutubeI\<close>
  does not: when strategy A fails and strategy B answers with a caption from 5000 ms to
  3000 ms, the resolution succeeds with a segment whose duration is \<open>-2\<close>.
\<close>

theorem strategyB_duration_not_clamped:
  "fst (getYouTubeTranscript backwards_world ''dQw4w9WgXcQ'' initial_state)
     = Inr [\<lparr>seg_text = ''hi'', offset = Fin 5, duration = Fin (- 2)\<rparr>]
   \<and> js_lt (Fin (- 2)) (Fin 0)"
  by (simp add: getYouTubeTranscript_def Let_def backwards_world_def backwards_item_def
      initial_state_def callA_def message_includes_def fallback_def callB_def
      fetchTranscriptWithYoutubeI_def transcriptContent_def item_text_def or_zero_string_def
      parseInt_5000 parseInt_3000 trim_def is_ws_def js_sub_def round64_5 round64_m2 round64_m2000)

text \<open>
  Claim C7. The time formatter prints \<^verbatim>\<open>HH:MM:SS\<close> and three digits of milliseconds, and
  3661.234 seconds print as \<^verbatim>\<open>01:01:01,234\<close>. The program computes the milliseconds as
  \<^verbatim>\<open>Math.floor((seconds % 1) * 1000)\<close> in binary64 arithmetic: the number nearest to
  3661.234 lies below it, its fractional part times 1000 is 233.9999999999236, and the
  program prints \<^verbatim>\<open>01:01:01,233\<close> (with a dot for VTT). Zero seconds print as the claim says.
\<close>

theorem formatTime_3661_234_truncated:
  "formatTime (round64 (3661234 / 1000)) False = ''01:01:01,233''
   \<and> formatTime (round64 (3661234 / 1000)) True = ''01:01:01.233''
   \<and> formatTime (Fin 0) False = ''00:00:00,000''"
  by code_simp

text \<open>An instance of claim C2.\<close>

theorem permanent_error_aborts_witness:
  "fetchTranscript unavailable_world ''dQw4w9WgXcQ'' = AThrows (Some ''Video unavailable (removed)'')
   \<and> str_includes ''Video unavailable (removed)'' ''Video unavailable''
   \<and> fst (getYouTubeTranscript unavailable_world ''dQw4w9WgXcQ'' initial_state)
       = Inl (Error ''Video is unavailable or has been removed'')
   \<and> requests (snd (getYouTubeTranscript unavailable_world ''dQw4w9WgXcQ'' initial_state))
       = [StrategyA ''dQw4w9WgXcQ'']"
proof -
  have id: "''dQw4w9WgXcQ'' \<noteq> []" by simp
  have reply: "fetchTranscript unavailable_world ''dQw4w9WgXcQ''
      = AThrows (Some ''Video unavailable (removed)'')"
    by (simp add: unavailable_world_def)
  have found: "str_includes ''Video unavailable (removed)'' ''Video unavailable''" by simp
  have other: "\<not> str_includes ''Video unavailable (removed)'' ''Transcript is disabled''" by simp
  from found have any: "str_includes ''Video unavailable (removed)'' ''Transcript is disabled''
      \<or> str_includes ''Video unavailable (removed)'' ''Video unavailable''
      \<or> str_includes ''Video unavailable (removed)'' ''private''" by blast
  show ?thesis
    using permanent_error_aborts[OF id reply any, of initial_state] reply found other
    by (simp add: initial_state_def)
qed



text \<open>An instance of claim C4.\<close>

theorem failure_counter_never_negative_witness:
  "0 \<le> consecutiveFailures two_failures
   \<and> fst (getYouTubeTranscript captions_world ''dQw4w9WgXcQ'' two_failures)
       = Inr [\<lparr>seg_text = ''first'', offset = Fin 0, duration = Fin 2\<rparr>,
              \<lparr>seg_text = ''second'', offset = Fin 2, duration = Fin 0\<rparr>]
   \<and> consecutiveFailures (snd (getYouTubeTranscript captions_world ''dQw4w9WgXcQ'' two_failures)) = 1
   \<and> (\<exists>st1. attempts captions_world two_failures st1
          \<and> snd (getYouTubeTranscript captions_world ''dQw4w9WgXcQ'' two_failures)
              = decrementFailures st1)
   \<and> 0 \<le> consecutiveFailures (resolveAll [(captions_world, ''dQw4w9WgXcQ'')] two_failures)"
proof -
  have start: "0 \<le> consecutiveFailures two_failures"
    by (simp add: two_failures_def)
  have ok: "fst (getYouTubeTranscript captions_world ''dQw4w9WgXcQ'' two_failures)
       = Inr [\<lparr>seg_text = ''first'', offset = Fin 0, duration = Fin 2\<rparr>,
              \<lparr>seg_text = ''second'', offset = Fin 2, duration = Fin 0\<rparr>]"
    by (simp add: getYouTubeTranscript_def Let_def captions_world_def callA_def toSegment_def
          or_zero_def trim_def is_ws_def)
  show ?thesis
    using failure_counter_never_negative[OF start, of captions_world "''dQw4w9WgXcQ''" "[(captions_world, ''dQw4w9WgXcQ'')]"]
      start ok
    by (simp add: two_failures_def)
qed

text \<open>An instance of claim C5.\<close>

theorem formatTranscript_throws_iff_witness:
  "typeof (raw_text textless_segment) \<noteq> ''string''
   \<and> (\<exists>e. formatTranscript [hello_segment, textless_segment] ''srt'' = Inl e)
   \<and> formatTranscript [hello_segment, textless_segment] ''srt''
       = Inl (Error ''Invalid text in segment 1'')
   \<and> formatTranscript [hello_segment, textless_segment] ''pdf''
       = Inl (Error ''Invalid text in segment 1'')"
proof -
  have srt: "formatTranscript [hello_segment, textless_segment] ''srt''
       = Inl (Error ''Invalid text in segment 1'')"
    by (simp add: formatTranscript_def hello_segment_def textless_segment_def digits10.simps
          digit_def)
  show ?thesis
    using formatTranscript_throws_iff[of "[hello_segment, textless_segment]" "''srt''"
             "Error ''Invalid text in segment 1''" "''pdf''"] srt
    by (simp add: textless_segment_def)
qed


text \<open>An instance of claim C8.\<close>

theorem unknown_format_is_txt_witness:
  "toLowerCase ''PDF'' \<notin> {''txt'', ''json'', ''csv'', ''srt'', ''vtt''}
   \<and> formatTranscript [hello_segment, blank_segment] ''txt'' = Inr (''hello'' @ [CHR 0x0A, CHR 0x0A])
   \<and> formatTranscript [hello_segment, blank_segment] ''PDF'' = Inr (''hello'' @ [CHR 0x0A, CHR 0x0A])"
proof -
  have low: "toLowerCase ''PDF'' = ''pdf''"
    by (simp add: toLowerCase_def lower_char_def char_of_def bit_Suc_0_iff)
  have unknown: "toLowerCase ''PDF'' \<notin> {''txt'', ''json'', ''csv'', ''srt'', ''vtt''}"
    by (simp add: low)
  have plain: "formatTranscript [hello_segment, blank_segment] ''txt''
      = Inr (''hello'' @ [CHR 0x0A, CHR 0x0A])"
    by (simp add: formatTranscript_def hello_segment_def blank_segment_def dispatch_def Let_def
          toLowerCase_txt formatAsTxt_def trim_def is_ws_def)
  show ?thesis
    using unknown_format_is_txt[OF unknown, of "[hello_segment, blank_segment]"] unknown plain by simp
qed

text \<open>An instance of claim C9.\<close>

theorem srt_one_block_per_segment_witness:
  "passes_checks hello_segment \<and> passes_checks blank_segment
   \<and> formatTranscript [hello_segment, blank_segment] ''srt'' =
       Inr (''1'' @ [CHR 0x0A] @ ''00:00:00,000 --> 00:00:02,000'' @ [CHR 0x0A] @ ''hello''
            @ [CHR 0x0A, CHR 0x0A]
            @ ''2'' @ [CHR 0x0A] @ ''00:00:02,000 --> 00:00:03,000'' @ [CHR 0x0A] @ ''''
            @ [CHR 0x0A])"
proof -
  have ne: "[hello_segment, blank_segment] \<noteq> []" by simp
  have p: "passes_checks hello_segment" "passes_checks blank_segment"
    by (simp_all add: passes_checks_def hello_segment_def blank_segment_def)
  have all: "\<forall>s\<in>set [hello_segment, blank_segment]. passes_checks s"
    using p by simp
  have b1: "srt_block (Suc 0) (typed hello_segment) = [''1'', ''00:00:00,000 --> 00:00:02,000'', ''hello'']"
    by (simp add: srt_block_def typed_def hello_segment_def digits10.simps digit_def
          formatTime_0 formatTime_2 round64_2 trim_def is_ws_def)
  have b2: "srt_block (Suc (Suc 0)) (typed blank_segment) = [''2'', ''00:00:02,000 --> 00:00:03,000'', '''']"
    by (simp add: srt_block_def typed_def blank_segment_def digits10.simps digit_def
          formatTime_2 formatTime_3 round64_3 trim_def is_ws_def)
  have idx: "[0..<length [hello_segment, blank_segment]] = [0, Suc 0]"
    by (simp add: upt_rec)
  show ?thesis
    using srt_one_block_per_segment[OF ne all] p
    unfolding idx by (simp add: b1 b2)
qed

text \<open>An instance of claim C10.\<close>

theorem whitespace_text_accepted_witness:
  "passes_checks hello_segment \<and> is_ws (CHR 0x20) \<and> passes_checks blank_segment
   \<and> formatTranscript [hello_segment, blank_segment] ''txt'' = Inr (''hello'' @ [CHR 0x0A, CHR 0x0A])"
proof -
  have p: "\<forall>s\<in>set ([hello_segment] @ []). passes_checks s"
    by (simp add: passes_checks_def hello_segment_def)
  have w: "'' '' \<noteq> []" "\<forall>c\<in>set '' ''. is_ws c"
    by (simp_all add: is_ws_def)
  have n: "\<not> js_lt (Fin 2) (Fin 0)" "\<not> js_lt (Fin 1) (Fin 0)" by simp_all
  have t: "trim (seg_text (typed hello_segment)) = ''hello''"
    by (simp add: typed_def hello_segment_def trim_def is_ws_def)
  show ?thesis
    using whitespace_text_accepted[OF p w n] p w t
    by (simp add: blank_segment_def)
qed

end
